theory Spec2Isabelle
  imports Main
begin

section \<open>Values, principals, sessions and requests\<close>

text \<open>
  The routes work on loosely typed JavaScript values: identifiers and database columns
  may be undefined, null, numbers or strings, and the guards test them for truthiness
  (\<open>req.session.owner.id\<close>, \<open>!phone || !password\<close>).  Strings are lists of
  characters; the two case conversions used by the routes map the ASCII letters and
  leave every other character alone.
\<close>

datatype jsval = JUndefined | JNull | JBool bool | JNum int | JStr string

fun truthy :: "jsval \<Rightarrow> bool" where
  "truthy JUndefined = False"
| "truthy JNull = False"
| "truthy (JBool b) = b"
| "truthy (JNum n) = (n \<noteq> 0)"
| "truthy (JStr s) = (s \<noteq> [])"

definition toUpperCase_char :: "char \<Rightarrow> char" where
  "toUpperCase_char c =
     (let n = (of_char c :: nat) in if 97 \<le> n \<and> n \<le> 122 then char_of (n - 32) else c)"

definition toUpperCase :: "string \<Rightarrow> string" where
  "toUpperCase s = map toUpperCase_char s"

definition toLowerCase_char :: "char \<Rightarrow> char" where
  "toLowerCase_char c =
     (let n = (of_char c :: nat) in if 65 \<le> n \<and> n \<le> 90 then char_of (n + 32) else c)"

definition toLowerCase :: "string \<Rightarrow> string" where
  "toLowerCase s = map toLowerCase_char s"

text \<open>\<open>String.prototype.includes\<close>: the argument occurs as a contiguous substring.\<close>

fun str_includes :: "string \<Rightarrow> string \<Rightarrow> bool" where
  "str_includes [] sub = (sub = [])"
| "str_includes (c # cs) sub = (take (length sub) (c # cs) = sub \<or> str_includes cs sub)"

text \<open>\<open>Array.prototype.includes\<close>, \<open>every\<close> and \<open>some\<close> on arrays of strings.\<close>

definition arr_includes :: "string list \<Rightarrow> string \<Rightarrow> bool" where
  "arr_includes xs x = (x \<in> set xs)"

definition every :: "(string \<Rightarrow> bool) \<Rightarrow> string list \<Rightarrow> bool" where
  "every f xs = list_all f xs"

definition some :: "(string \<Rightarrow> bool) \<Rightarrow> string list \<Rightarrow> bool" where
  "some f xs = list_ex f xs"

text \<open>
  The three session slots \<open>session.owner\<close>, \<open>session.user\<close> and
  \<open>session.student\<close> are independent properties of the session object; an absent
  slot is \<open>None\<close>.  The \<open>permissions\<close> of a user may be missing, which the gates
  repair with \<open>|| []\<close>.
\<close>

record owner =
  owner_id :: jsval
  libraryCode :: jsval
  libraryName :: jsval
  ownerName :: jsval
  ownerEmail :: jsval
  owner_role :: string

record user =
  user_id :: jsval
  username :: jsval
  user_role :: jsval
  permissions :: "string list option"

record student =
  student_id :: jsval

record session =
  s_owner :: "owner option"
  s_user :: "user option"
  s_student :: "student option"

text \<open>
  A request carries the session (absent when no session middleware ran), and the
  properties the middleware attach to it: \<open>req.owner\<close> and \<open>req.libraryId\<close>.
\<close>

record request =
  req_session :: "session option"
  req_owner :: "owner option"
  libraryId :: jsval

datatype body =
    Message string
  | MessageError string string
  | OwnerLogin string owner
  | UserLogin string user

record response =
  status :: nat
  json :: body
  clearedCookies :: "string list"

text \<open>
  A middleware either calls \<open>next()\<close> with the (possibly updated) request, sends a
  response, or throws a TypeError by reading a property of \<open>undefined\<close>.
\<close>

datatype outcome = Next request | Respond response | TypeError

definition reply :: "nat \<Rightarrow> body \<Rightarrow> response" where
  "reply code b = \<lparr>status = code, json = b, clearedCookies = []\<rparr>"

definition unauthorized_login :: response where
  "unauthorized_login = reply 401 (Message ''Unauthorized - Please log in'')"

definition forbidden_permissions :: response where
  "forbidden_permissions = reply 403 (Message ''Forbidden - Insufficient permissions'')"

section \<open>Permission and role gates (routes/auth.js)\<close>

definition userPermissions :: "user \<Rightarrow> string list" where
  "userPermissions u = (case permissions u of None \<Rightarrow> [] | Some ps \<Rightarrow> ps)"

definition checkPermission :: "string \<Rightarrow> request \<Rightarrow> outcome" where
  "checkPermission permission req =
     (case req_session req of
        None \<Rightarrow> TypeError
      | Some s \<Rightarrow>
          (case s_user s of
             Some u \<Rightarrow>
               if user_role u = JStr ''admin'' \<or> user_role u = JStr ''staff'' then Next req
               else if arr_includes (userPermissions u) permission then Next req
               else if s_owner s \<noteq> None then Next req
               else Respond unauthorized_login
           | None \<Rightarrow>
               if s_owner s \<noteq> None then Next req
               else Respond unauthorized_login))"

definition checkPermissions :: "string list \<Rightarrow> string \<Rightarrow> request \<Rightarrow> outcome" where
  "checkPermissions perms logic req =
     (case req_session req of
        None \<Rightarrow> TypeError
      | Some s \<Rightarrow>
          if s_owner s \<noteq> None then Next req
          else (case s_user s of
             None \<Rightarrow> Respond unauthorized_login
           | Some u \<Rightarrow>
               if user_role u = JStr ''admin'' then Next req
               else
                 let hasPermission =
                   (if toUpperCase logic = ''AND''
                    then every (\<lambda>p. arr_includes (userPermissions u) p) perms
                    else some (\<lambda>p. arr_includes (userPermissions u) p) perms)
                 in if \<not> hasPermission then Respond forbidden_permissions else Next req))"

text \<open>The default arguments: \<open>permissions = []\<close> and \<open>logic = 'OR'\<close>.\<close>

definition checkPermissions_default_logic :: "string list \<Rightarrow> request \<Rightarrow> outcome" where
  "checkPermissions_default_logic perms req = checkPermissions perms ''OR'' req"

definition checkAdmin :: "request \<Rightarrow> outcome" where
  "checkAdmin req =
     (case req_session req of
        None \<Rightarrow> TypeError
      | Some s \<Rightarrow>
          if s_owner s \<noteq> None then Next req
          else (case s_user s of
             None \<Rightarrow> Respond unauthorized_login
           | Some u \<Rightarrow>
               if user_role u \<noteq> JStr ''admin''
               then Respond (reply 403 (Message ''Forbidden: Admin access required''))
               else Next req))"

definition checkAdminOrStaff :: "request \<Rightarrow> outcome" where
  "checkAdminOrStaff req =
     (case req_session req of
        None \<Rightarrow> TypeError
      | Some s \<Rightarrow>
          if s_owner s \<noteq> None then Next req
          else (case s_user s of
             None \<Rightarrow> Respond unauthorized_login
           | Some u \<Rightarrow>
               if user_role u = JStr ''admin'' \<or> user_role u = JStr ''staff'' then Next req
               else Respond (reply 403 (Message ''Forbidden: Admin or Staff access required''))))"

text \<open>The gates of routes/branches.js: reading, and writing (POST, PUT and DELETE alike).\<close>

definition branches_get_gate :: "request \<Rightarrow> outcome" where
  "branches_get_gate = checkPermissions [''manage_branches'', ''manage_library_students''] ''OR''"

definition branches_post_gate :: "request \<Rightarrow> outcome" where
  "branches_post_gate = checkPermissions_default_logic [''manage_branches'']"

section \<open>Owner authentication and tenant binding\<close>

text \<open>
  routes/auth.js: \<open>authenticateOwner\<close> admits an owner whose id is truthy and
  attaches \<open>req.owner\<close> and \<open>req.libraryId\<close>; \<open>ensureOwnerDataIsolation\<close>
  is meant to run after it and reads \<open>req.owner\<close>.
\<close>

definition authenticateOwner :: "request \<Rightarrow> outcome" where
  "authenticateOwner req =
     (case req_session req of
        None \<Rightarrow> Respond (reply 401 (Message ''Unauthorized: Owner access required.''))
      | Some s \<Rightarrow>
          (case s_owner s of
             None \<Rightarrow> Respond (reply 401 (Message ''Unauthorized: Owner access required.''))
           | Some ow \<Rightarrow>
               if truthy (owner_id ow)
               then Next (req\<lparr>req_owner := Some ow, libraryId := owner_id ow\<rparr>)
               else Respond (reply 401 (Message ''Unauthorized: Owner access required.''))))"

definition ensureOwnerDataIsolation :: "request \<Rightarrow> outcome" where
  "ensureOwnerDataIsolation req =
     (case req_owner req of
        None \<Rightarrow> Respond (reply 401 (Message ''Unauthorized. Owner context is missing.''))
      | Some ow \<Rightarrow> Next (req\<lparr>libraryId := owner_id ow\<rparr>))"

text \<open>
  routes/ownerAuth.js has its own pair.  Its \<open>authenticateOwner\<close> attaches nothing,
  and on the rejecting path it logs \<open>req.session.owner\<close>, which throws when the
  session itself is missing.  Its \<open>ensureOwnerDataIsolation\<close> reads the session.
\<close>

definition ownerAuth_authenticateOwner :: "request \<Rightarrow> outcome" where
  "ownerAuth_authenticateOwner req =
     (case req_session req of
        None \<Rightarrow> TypeError
      | Some s \<Rightarrow>
          (case s_owner s of
             None \<Rightarrow> Respond (reply 401 (Message ''Unauthorized - Please log in as a library owner''))
           | Some ow \<Rightarrow>
               if truthy (owner_id ow) then Next req
               else Respond (reply 401 (Message ''Unauthorized - Please log in as a library owner''))))"

definition ownerAuth_ensureOwnerDataIsolation :: "request \<Rightarrow> outcome" where
  "ownerAuth_ensureOwnerDataIsolation req =
     (case req_session req of
        None \<Rightarrow> Respond (reply 401 (Message ''Unauthorized - Please log in as library owner''))
      | Some s \<Rightarrow>
          (case s_owner s of
             None \<Rightarrow> Respond (reply 401 (Message ''Unauthorized - Please log in as library owner''))
           | Some ow \<Rightarrow> Next (req\<lparr>libraryId := owner_id ow\<rparr>)))"

text \<open>Two middleware in a row on one route: the second runs when the first calls next.\<close>

definition chain :: "(request \<Rightarrow> outcome) \<Rightarrow> (request \<Rightarrow> outcome) \<Rightarrow> request \<Rightarrow> outcome" where
  "chain m1 m2 req = (case m1 req of Next req' \<Rightarrow> m2 req' | Respond r \<Rightarrow> Respond r | TypeError \<Rightarrow> TypeError)"

section \<open>Login and logout handlers\<close>

text \<open>
  Each login handler makes one database query and (for owners) one \<open>bcrypt.compare\<close>.
  Their results are parameters of the model: \<open>Inl msg\<close> is a thrown error with that
  message, which the handler's \<open>catch\<close> turns into a 500 response.  The handlers run
  behind the session and body middleware; they return the session as they leave it and
  the response they send.
\<close>

record library_row =
  lib_id :: jsval
  library_code :: jsval
  library_name :: jsval
  owner_name :: jsval
  owner_email :: jsval
  lib_password :: jsval
  lib_status :: jsval

record user_row =
  row_id :: jsval
  row_username :: jsval
  row_password :: jsval
  row_role :: jsval
  row_permissions :: "string list option"

definition isDbAuthError :: "string \<Rightarrow> bool" where
  "isDbAuthError message =
     (if message = [] then False
      else let msg = toLowerCase message in
        str_includes msg ''sasl'' \<or> str_includes msg ''scram'' \<or>
        str_includes msg ''server signature'' \<or> str_includes msg ''authentication failed'' \<or>
        str_includes msg ''28p01'')"

definition handleDbAuthError :: "string \<Rightarrow> response" where
  "handleDbAuthError message =
     reply 500 (MessageError
       ''Database authentication failed. Check DB credentials and SSL settings in environment variables. If using DATABASE_URL on a platform like Render, ensure SSL is enabled.''
       message)"

definition invalid_credentials :: response where
  "invalid_credentials = reply 401 (Message ''Invalid credentials'')"

definition owner_login_catch :: "string \<Rightarrow> response" where
  "owner_login_catch message =
     (if isDbAuthError message then handleDbAuthError message
      else reply 500 (MessageError ''Server error during login'' message))"

text \<open>The object literal that the owner login stores in the session and sends back.\<close>

definition owner_of_library :: "library_row \<Rightarrow> owner" where
  "owner_of_library library =
     \<lparr>owner_id = lib_id library, libraryCode = library_code library,
      libraryName = library_name library, ownerName = owner_name library,
      ownerEmail = owner_email library, owner_role = ''owner''\<rparr>"

definition owner_login ::
  "string + library_row list \<Rightarrow> string + bool \<Rightarrow> jsval \<Rightarrow> jsval \<Rightarrow> session \<Rightarrow> session \<times> response" where
  "owner_login query_result compare_result phone password s =
     (if \<not> truthy phone \<or> \<not> truthy password
      then (s, reply 400 (Message ''Phone number and password are required''))
      else (case query_result of
        Inl e \<Rightarrow> (s, owner_login_catch e)
      | Inr rows \<Rightarrow>
          (case rows of
             [] \<Rightarrow> (s, invalid_credentials)
           | library # _ \<Rightarrow>
               if lib_status library \<noteq> JStr ''active''
               then (s, reply 401 (Message ''Library account is suspended. Please contact support.''))
               else (case compare_result of
                 Inl e \<Rightarrow> (s, owner_login_catch e)
               | Inr isPasswordValid \<Rightarrow>
                   if \<not> isPasswordValid then (s, invalid_credentials)
                   else (s\<lparr>s_owner := Some (owner_of_library library)\<rparr>,
                         reply 200 (OwnerLogin ''Login successful'' (owner_of_library library)))))))"

text \<open>The object literal of the user login, with \<open>permissions: user.permissions || []\<close>.\<close>

definition user_of_row :: "user_row \<Rightarrow> user" where
  "user_of_row r =
     \<lparr>user_id = row_id r, username = row_username r, user_role = row_role r,
      permissions = Some (case row_permissions r of None \<Rightarrow> [] | Some ps \<Rightarrow> ps)\<rparr>"

definition user_login ::
  "string + user_row list \<Rightarrow> jsval \<Rightarrow> jsval \<Rightarrow> session \<Rightarrow> session \<times> response" where
  "user_login query_result uname password s =
     (if \<not> truthy uname \<or> \<not> truthy password
      then (s, reply 400 (Message ''Username and password are required''))
      else (case query_result of
        Inl e \<Rightarrow> (s, reply 500 (MessageError ''Server error during login'' e))
      | Inr rows \<Rightarrow>
          (case rows of
             [] \<Rightarrow> (s, invalid_credentials)
           | r # _ \<Rightarrow>
               let isPasswordValid = (password = row_password r) in
               if \<not> isPasswordValid then (s, invalid_credentials)
               else (s\<lparr>s_user := Some (user_of_row r)\<rparr>,
                     reply 200 (UserLogin ''Login successful'' (user_of_row r))))))"

text \<open>
  Both logout handlers call \<open>req.session.destroy\<close> and answer in its callback; the
  parameter is the error the callback receives, if any.
\<close>

definition logout :: "string option \<Rightarrow> request \<Rightarrow> outcome" where
  "logout destroy_err req =
     (case req_session req of
        None \<Rightarrow> TypeError
      | Some s \<Rightarrow>
          (case destroy_err of
             Some e \<Rightarrow> Respond (reply 500 (Message ''Could not log out, please try again.''))
           | None \<Rightarrow>
               Respond ((reply 200 (Message ''Logout successful''))\<lparr>clearedCookies := [''connect.sid'']\<rparr>)))"

definition owner_logout :: "string option \<Rightarrow> request \<Rightarrow> outcome" where
  "owner_logout destroy_err req =
     (case req_session req of
        None \<Rightarrow> TypeError
      | Some s \<Rightarrow>
          (case destroy_err of
             Some e \<Rightarrow> Respond (reply 500 (Message ''Could not log out, please try again.''))
           | None \<Rightarrow>
               Respond ((reply 200 (Message ''Logout successful''))\<lparr>clearedCookies := [''connect.sid'']\<rparr>)))"

section \<open>Sample sessions and rows\<close>

definition request_of :: "session \<Rightarrow> request" where
  "request_of s = \<lparr>req_session = Some s, req_owner = None, libraryId = JUndefined\<rparr>"

definition anonymous :: session where
  "anonymous = \<lparr>s_owner = None, s_user = None, s_student = None\<rparr>"

definition city_library :: library_row where
  "city_library =
     \<lparr>lib_id = JNum 7, library_code = JStr ''CITY01'', library_name = JStr ''City Library'',
      owner_name = JStr ''Asha'', owner_email = JStr ''asha@example.org'',
      lib_password = JStr ''$2b$10$hash'', lib_status = JStr ''active''\<rparr>"

definition suspended_library :: library_row where
  "suspended_library = city_library\<lparr>lib_status := JStr ''suspended''\<rparr>"

definition clerk :: user where
  "clerk = \<lparr>user_id = JNum 3, username = JStr ''ravi'', user_role = JStr ''staff'',
            permissions = Some [''manage_library_students'']\<rparr>"

definition viewer :: user where
  "viewer = \<lparr>user_id = JNum 4, username = JStr ''meera'', user_role = JStr ''viewer'',
             permissions = Some []\<rparr>"

definition clerk_row :: user_row where
  "clerk_row = \<lparr>row_id = JNum 3, row_username = JStr ''ravi'', row_password = JStr ''s3cret'',
                row_role = JStr ''staff'', row_permissions = Some [''manage_library_students'']\<rparr>"

definition owner_session :: session where
  "owner_session = anonymous\<lparr>s_owner := Some (owner_of_library city_library)\<rparr>"

definition blank_id_owner_session :: session where
  "blank_id_owner_session =
     anonymous\<lparr>s_owner := Some ((owner_of_library city_library)\<lparr>owner_id := JStr []\<rparr>)\<rparr>"

definition clerk_session :: session where
  "clerk_session = anonymous\<lparr>s_user := Some clerk\<rparr>"

definition viewer_session :: session where
  "viewer_session = anonymous\<lparr>s_user := Some viewer\<rparr>"

section \<open>Auxiliary facts\<close>

lemma toUpperCase_AND: "toUpperCase ''AND'' = ''AND''"
  by code_simp

lemma toUpperCase_and: "toUpperCase ''and'' = ''AND''"
  by code_simp

lemma toUpperCase_others:
  "toUpperCase ''OR'' \<noteq> ''AND'' \<and> toUpperCase ''ANY'' \<noteq> ''AND'' \<and> toUpperCase ''ALL'' \<noteq> ''AND''"
  by (simp add: toUpperCase_def toUpperCase_char_def)

lemma status_reply: "status (reply code b) = code"
  by (simp add: reply_def)

lemma status_owner_login_catch: "status (owner_login_catch e) = 500"
  by (simp add: owner_login_catch_def handleDbAuthError_def status_reply)

lemma status_invalid_credentials: "status invalid_credentials = 401"
  by (simp add: invalid_credentials_def status_reply)

text \<open>
  What \<open>checkPermissions\<close> computes once the owner and admin shortcuts are out of the
  way: \<open>every\<close> under AND, \<open>some\<close> otherwise, and 403 when the test fails.
\<close>

lemma checkPermissions_non_admin:
  assumes "req_session req = Some s" and "s_owner s = None" and "s_user s = Some u"
    and "user_role u \<noteq> JStr ''admin''"
  shows "checkPermissions perms logic req =
     (if (if toUpperCase logic = ''AND''
          then (\<forall>p \<in> set perms. p \<in> set (userPermissions u))
          else (\<exists>p \<in> set perms. p \<in> set (userPermissions u)))
      then Next req else Respond forbidden_permissions)"
  using assms
  by (simp add: checkPermissions_def every_def some_def arr_includes_def list_all_iff list_ex_iff)

lemma chain_auth_binder:
  assumes "chain authenticateOwner ensureOwnerDataIsolation req = Next req'"
  shows "\<exists>s ow. req_session req = Some s \<and> s_owner s = Some ow \<and> truthy (owner_id ow)
           \<and> libraryId req' = owner_id ow"
  using assms
  by (auto simp add: chain_def authenticateOwner_def ensureOwnerDataIsolation_def
      split: option.splits if_splits)

lemma chain_ownerAuth_binder:
  assumes "chain ownerAuth_authenticateOwner ownerAuth_ensureOwnerDataIsolation req = Next req'"
  shows "\<exists>s ow. req_session req = Some s \<and> s_owner s = Some ow \<and> truthy (owner_id ow)
           \<and> libraryId req' = owner_id ow"
  using assms
  by (auto simp add: chain_def ownerAuth_authenticateOwner_def ownerAuth_ensureOwnerDataIsolation_def
      split: option.splits if_splits)

text \<open>A login that answers 200 went through the last branch of its handler.\<close>

lemma owner_login_success:
  assumes "owner_login query_result compare_result phone password s = (s', r)"
    and "status r = 200"
  shows "\<exists>library rows. query_result = Inr (library # rows)
           \<and> s' = s\<lparr>s_owner := Some (owner_of_library library)\<rparr>"
proof (cases query_result)
  case (Inl e)
  with assms show ?thesis
    by (auto simp add: owner_login_def status_reply status_owner_login_catch split: if_splits)
next
  case (Inr rows)
  show ?thesis
  proof (cases rows)
    case Nil
    with Inr assms show ?thesis
      by (auto simp add: owner_login_def status_reply status_invalid_credentials split: if_splits)
  next
    case (Cons library rest)
    with Inr assms show ?thesis
      by (cases compare_result)
        (auto simp add: owner_login_def status_reply status_invalid_credentials
          status_owner_login_catch split: if_splits)
  qed
qed

lemma user_login_success:
  assumes "user_login query_result uname password s = (s', r)"
    and "status r = 200"
  shows "\<exists>row rows. query_result = Inr (row # rows)
           \<and> s' = s\<lparr>s_user := Some (user_of_row row)\<rparr>"
proof (cases query_result)
  case (Inl e)
  with assms show ?thesis
    by (auto simp add: user_login_def status_reply split: if_splits)
next
  case (Inr rows)
  with assms show ?thesis
    by (cases rows)
      (auto simp add: user_login_def status_reply status_invalid_credentials Let_def
        split: if_splits)
qed

section \<open>The owner bypass\<close>

text \<open>
  C1. Whenever the session holds an owner, \<open>checkPermissions\<close> calls \<open>next()\<close> for
  every list of required permissions and every combinator string, and so does the
  single-permission gate \<open>checkPermission\<close> for every permission.
\<close>

theorem owner_bypass:
  assumes "req_session req = Some s" and "s_owner s = Some ow"
  shows "checkPermissions perms logic req = Next req \<and> checkPermission permission req = Next req"
  using assms by (simp add: checkPermissions_def checkPermission_def split: option.split)

theorem owner_bypass_witness:
  "req_session (request_of owner_session) = Some owner_session
   \<and> s_owner owner_session = Some (owner_of_library city_library)
   \<and> checkPermissions [''manage_branches''] ''AND'' (request_of owner_session) = Next (request_of owner_session)
   \<and> checkPermission ''manage_branches'' (request_of owner_session) = Next (request_of owner_session)"
  using owner_bypass [of "request_of owner_session" owner_session "owner_of_library city_library"
      "[''manage_branches'']" "''AND''" "''manage_branches''"]
  by (simp add: request_of_def owner_session_def anonymous_def)

section \<open>Permission checks for users who are not admins\<close>

text \<open>
  C2. For a session with a user whose role is not \<open>admin\<close> and with no owner,
  \<open>checkPermissions required 'AND'\<close> admits exactly when every required permission is
  in the user's permissions, and \<open>checkPermissions required 'OR'\<close> exactly when at
  least one is.  A user holding only \<open>manage_library_students\<close> therefore passes the
  gate of \<open>GET /branches\<close> and gets 403 from the gate of \<open>POST /branches\<close>.
\<close>

theorem permission_check_non_admin:
  assumes "req_session req = Some s" and "s_owner s = None" and "s_user s = Some u"
    and "user_role u \<noteq> JStr ''admin''"
  shows "(checkPermissions required ''AND'' req = Next req
            \<longleftrightarrow> set required \<subseteq> set (userPermissions u))
       \<and> (checkPermissions required ''OR'' req = Next req
            \<longleftrightarrow> set required \<inter> set (userPermissions u) \<noteq> {})
       \<and> (userPermissions u = [''manage_library_students'']
            \<longrightarrow> branches_get_gate req = Next req
              \<and> branches_post_gate req = Respond forbidden_permissions
              \<and> status forbidden_permissions = 403)"
proof -
  note gate = checkPermissions_non_admin [OF assms]
  have all: "checkPermissions required ''AND'' req = Next req
      \<longleftrightarrow> set required \<subseteq> set (userPermissions u)"
    by (auto simp add: gate toUpperCase_AND)
  have any: "checkPermissions required ''OR'' req = Next req
      \<longleftrightarrow> set required \<inter> set (userPermissions u) \<noteq> {}"
    using toUpperCase_others by (auto simp add: gate)
  have scenario: "branches_get_gate req = Next req
      \<and> branches_post_gate req = Respond forbidden_permissions
      \<and> status forbidden_permissions = 403"
    if "userPermissions u = [''manage_library_students'']"
    using that toUpperCase_others
    by (simp add: branches_get_gate_def branches_post_gate_def
        checkPermissions_default_logic_def gate forbidden_permissions_def reply_def)
  from all any scenario show ?thesis by blast
qed

theorem permission_check_non_admin_witness:
  "req_session (request_of clerk_session) = Some clerk_session
   \<and> s_owner clerk_session = None \<and> s_user clerk_session = Some clerk
   \<and> user_role clerk \<noteq> JStr ''admin''
   \<and> checkPermissions [''manage_branches'', ''manage_library_students''] ''AND'' (request_of clerk_session)
        \<noteq> Next (request_of clerk_session)
   \<and> checkPermissions [''manage_branches'', ''manage_library_students''] ''OR'' (request_of clerk_session)
        = Next (request_of clerk_session)
   \<and> branches_get_gate (request_of clerk_session) = Next (request_of clerk_session)
   \<and> branches_post_gate (request_of clerk_session) = Respond forbidden_permissions"
  using permission_check_non_admin [of "request_of clerk_session" clerk_session clerk
      "[''manage_branches'', ''manage_library_students'']"]
  by (simp add: request_of_def clerk_session_def anonymous_def clerk_def userPermissions_def)

section \<open>An empty list of required permissions\<close>

text \<open>
  C3, as the code has it.  For a session with a user who is not an admin and with no
  owner, \<open>checkPermissions\<close> with an empty list of required permissions and any
  combinator other than AND (\<open>some\<close> over the empty array is false) answers
  403 Forbidden; it does not admit the request.
\<close>

theorem empty_required_any_forbidden:
  assumes "req_session req = Some s" and "s_owner s = None" and "s_user s = Some u"
    and "user_role u \<noteq> JStr ''admin''" and "toUpperCase logic \<noteq> ''AND''"
  shows "checkPermissions [] logic req = Respond forbidden_permissions
       \<and> status forbidden_permissions = 403"
  using assms(5)
  by (simp add: checkPermissions_non_admin [OF assms(1-4)] forbidden_permissions_def reply_def)

theorem empty_required_any_forbidden_witness:
  "req_session (request_of viewer_session) = Some viewer_session
   \<and> s_owner viewer_session = None \<and> s_user viewer_session = Some viewer
   \<and> user_role viewer \<noteq> JStr ''admin'' \<and> toUpperCase ''OR'' \<noteq> ''AND''
   \<and> checkPermissions [] ''OR'' (request_of viewer_session) = Respond forbidden_permissions"
  using empty_required_any_forbidden [of "request_of viewer_session" viewer_session viewer "''OR''"]
    toUpperCase_others
  by (simp add: request_of_def viewer_session_def anonymous_def viewer_def)

text \<open>
  The staff user of the samples, asking with an empty list under \<open>'ANY'\<close> and under
  the default \<open>'OR'\<close>, is turned away with 403.
\<close>

theorem empty_required_any_counterexample:
  "checkPermissions [] ''ANY'' (request_of clerk_session) = Respond forbidden_permissions
   \<and> checkPermissions [] ''OR'' (request_of clerk_session) = Respond forbidden_permissions
   \<and> status forbidden_permissions = 403"
  using toUpperCase_others
  by (simp add: checkPermissions_def request_of_def clerk_session_def anonymous_def clerk_def
      some_def forbidden_permissions_def reply_def)

section \<open>Staff users\<close>

text \<open>
  C4, as the code has it.  In \<open>checkPermissions\<close> a staff user gets no bypass: with
  no owner in the session, the outcome is exactly the permission test (403 when it
  fails).  The staff bypass exists in \<open>checkAdminOrStaff\<close> and also in the
  single-permission gate \<open>checkPermission\<close>, both of which admit every staff user.
\<close>

theorem staff_no_bypass_in_checkPermissions:
  assumes "req_session req = Some s" and "s_owner s = None" and "s_user s = Some u"
    and "user_role u = JStr ''staff''"
  shows "checkPermissions required logic req =
           (if (if toUpperCase logic = ''AND''
                then (\<forall>p \<in> set required. p \<in> set (userPermissions u))
                else (\<exists>p \<in> set required. p \<in> set (userPermissions u)))
            then Next req else Respond forbidden_permissions)
       \<and> checkAdminOrStaff req = Next req
       \<and> checkPermission permission req = Next req"
proof -
  from assms(4) have "user_role u \<noteq> JStr ''admin''" by simp
  from checkPermissions_non_admin [OF assms(1-3) this]
  have "checkPermissions required logic req =
           (if (if toUpperCase logic = ''AND''
                then (\<forall>p \<in> set required. p \<in> set (userPermissions u))
                else (\<exists>p \<in> set required. p \<in> set (userPermissions u)))
            then Next req else Respond forbidden_permissions)" .
  moreover have "checkAdminOrStaff req = Next req"
    using assms by (simp add: checkAdminOrStaff_def)
  moreover have "checkPermission permission req = Next req"
    using assms by (simp add: checkPermission_def)
  ultimately show ?thesis by blast
qed

theorem staff_no_bypass_in_checkPermissions_witness:
  "req_session (request_of clerk_session) = Some clerk_session
   \<and> s_owner clerk_session = None \<and> s_user clerk_session = Some clerk
   \<and> user_role clerk = JStr ''staff''
   \<and> checkPermissions [''manage_branches''] ''OR'' (request_of clerk_session)
       = Respond forbidden_permissions
   \<and> checkAdminOrStaff (request_of clerk_session) = Next (request_of clerk_session)
   \<and> checkPermission ''manage_branches'' (request_of clerk_session) = Next (request_of clerk_session)"
  using staff_no_bypass_in_checkPermissions [of "request_of clerk_session" clerk_session clerk
      "[''manage_branches'']" "''OR''" "''manage_branches''"] toUpperCase_others
  by (simp add: request_of_def clerk_session_def anonymous_def clerk_def userPermissions_def)

text \<open>
  A staff user who does not hold \<open>manage_branches\<close> passes
  \<open>checkPermission 'manage_branches'\<close>: the bypass is not confined to
  \<open>checkAdminOrStaff\<close>.
\<close>

theorem staff_bypass_counterexample:
  "checkPermission ''manage_branches'' (request_of clerk_session) = Next (request_of clerk_session)
   \<and> \<not> arr_includes (userPermissions clerk) ''manage_branches''"
  by (simp add: checkPermission_def request_of_def clerk_session_def anonymous_def clerk_def
      arr_includes_def userPermissions_def)

section \<open>The status of a rejection\<close>

text \<open>
  C5.  A logged-in user with role \<open>viewer\<close> and no permissions, with no owner in the
  session, asks for \<open>manage_branches\<close>.  \<open>checkPermissions\<close> answers 403 Forbidden,
  but \<open>checkPermission\<close> falls through to its last line and answers
  401 \<open>Unauthorized - Please log in\<close>.
\<close>

theorem checkPermission_missing_permission_401:
  "checkPermission ''manage_branches'' (request_of viewer_session)
     = Respond \<lparr>status = 401, json = Message ''Unauthorized - Please log in'', clearedCookies = []\<rparr>
   \<and> checkPermissions [''manage_branches''] ''OR'' (request_of viewer_session)
     = Respond \<lparr>status = 403, json = Message ''Forbidden - Insufficient permissions'', clearedCookies = []\<rparr>"
  using toUpperCase_others
  by (simp add: checkPermission_def checkPermissions_def request_of_def viewer_session_def
      anonymous_def viewer_def arr_includes_def userPermissions_def some_def
      unauthorized_login_def forbidden_permissions_def reply_def)

section \<open>Tenant binding\<close>

text \<open>
  C6, as the code has it.  \<open>ensureOwnerDataIsolation\<close> answers 401 when the owner
  it reads is absent (the session owner in routes/ownerAuth.js, \<open>req.owner\<close> in
  routes/auth.js) and otherwise copies the owner's id into \<open>req.libraryId\<close> and calls
  next, without testing the id.  The test for a non-empty id is made by
  \<open>authenticateOwner\<close>: behind \<open>authenticateOwner\<close> followed by the binder, a
  handler runs only with \<open>req.libraryId\<close> equal to the session owner's id, and that
  id is truthy.
\<close>

theorem tenant_binder:
  "((req_session req = None \<or> (\<exists>s. req_session req = Some s \<and> s_owner s = None)) \<longrightarrow>
       ownerAuth_ensureOwnerDataIsolation req
         = Respond (reply 401 (Message ''Unauthorized - Please log in as library owner'')))
   \<and> (req_session req = Some s \<and> s_owner s = Some ow \<longrightarrow>
       ownerAuth_ensureOwnerDataIsolation req = Next (req\<lparr>libraryId := owner_id ow\<rparr>))
   \<and> (req_owner req = None \<longrightarrow>
       ensureOwnerDataIsolation req
         = Respond (reply 401 (Message ''Unauthorized. Owner context is missing.'')))
   \<and> (req_owner req = Some ow \<longrightarrow>
       ensureOwnerDataIsolation req = Next (req\<lparr>libraryId := owner_id ow\<rparr>))
   \<and> (chain authenticateOwner ensureOwnerDataIsolation req = Next req' \<longrightarrow>
       truthy (libraryId req') \<and>
       (\<exists>s ow. req_session req = Some s \<and> s_owner s = Some ow \<and> libraryId req' = owner_id ow))
   \<and> (chain ownerAuth_authenticateOwner ownerAuth_ensureOwnerDataIsolation req = Next req' \<longrightarrow>
       truthy (libraryId req') \<and>
       (\<exists>s ow. req_session req = Some s \<and> s_owner s = Some ow \<and> libraryId req' = owner_id ow))"
proof -
  have a: "(req_session req = None \<or> (\<exists>s. req_session req = Some s \<and> s_owner s = None)) \<longrightarrow>
       ownerAuth_ensureOwnerDataIsolation req
         = Respond (reply 401 (Message ''Unauthorized - Please log in as library owner''))"
    by (auto simp add: ownerAuth_ensureOwnerDataIsolation_def)
  have b: "req_session req = Some s \<and> s_owner s = Some ow \<longrightarrow>
       ownerAuth_ensureOwnerDataIsolation req = Next (req\<lparr>libraryId := owner_id ow\<rparr>)"
    by (simp add: ownerAuth_ensureOwnerDataIsolation_def)
  have c: "req_owner req = None \<longrightarrow>
       ensureOwnerDataIsolation req
         = Respond (reply 401 (Message ''Unauthorized. Owner context is missing.''))"
    by (simp add: ensureOwnerDataIsolation_def)
  have d: "req_owner req = Some ow \<longrightarrow>
       ensureOwnerDataIsolation req = Next (req\<lparr>libraryId := owner_id ow\<rparr>)"
    by (simp add: ensureOwnerDataIsolation_def)
  have e: "chain authenticateOwner ensureOwnerDataIsolation req = Next req' \<longrightarrow>
       truthy (libraryId req') \<and>
       (\<exists>s ow. req_session req = Some s \<and> s_owner s = Some ow \<and> libraryId req' = owner_id ow)"
    using chain_auth_binder [of req req'] by auto
  have f: "chain ownerAuth_authenticateOwner ownerAuth_ensureOwnerDataIsolation req = Next req' \<longrightarrow>
       truthy (libraryId req') \<and>
       (\<exists>s ow. req_session req = Some s \<and> s_owner s = Some ow \<and> libraryId req' = owner_id ow)"
    using chain_ownerAuth_binder [of req req'] by auto
  from a b c d e f show ?thesis by blast
qed

theorem tenant_binder_witness:
  "req_session (request_of owner_session) = Some owner_session
   \<and> s_owner owner_session = Some (owner_of_library city_library)
   \<and> ownerAuth_ensureOwnerDataIsolation (request_of owner_session)
       = Next ((request_of owner_session)\<lparr>libraryId := JNum 7\<rparr>)
   \<and> chain authenticateOwner ensureOwnerDataIsolation (request_of owner_session)
       = Next ((request_of owner_session)
           \<lparr>req_owner := Some (owner_of_library city_library), libraryId := JNum 7\<rparr>)
   \<and> truthy (libraryId ((request_of owner_session)
           \<lparr>req_owner := Some (owner_of_library city_library), libraryId := JNum 7\<rparr>))
   \<and> req_owner (request_of owner_session) = None
   \<and> ensureOwnerDataIsolation (request_of owner_session)
       = Respond (reply 401 (Message ''Unauthorized. Owner context is missing.''))"
proof -
  have sess: "req_session (request_of owner_session) = Some owner_session"
    and absent: "req_owner (request_of owner_session) = None"
    by (simp_all add: request_of_def)
  have own: "s_owner owner_session = Some (owner_of_library city_library)"
    by (simp add: owner_session_def)
  have ident: "owner_id (owner_of_library city_library) = JNum 7"
    by (simp add: owner_of_library_def city_library_def)
  have run: "chain authenticateOwner ensureOwnerDataIsolation (request_of owner_session)
       = Next ((request_of owner_session)
           \<lparr>req_owner := Some (owner_of_library city_library), libraryId := JNum 7\<rparr>)"
    by (simp add: chain_def authenticateOwner_def ensureOwnerDataIsolation_def sess own ident)
  from sess absent own ident run
    tenant_binder [of "request_of owner_session" owner_session "owner_of_library city_library"
      "(request_of owner_session)
           \<lparr>req_owner := Some (owner_of_library city_library), libraryId := JNum 7\<rparr>"]
  show ?thesis by simp
qed

text \<open>
  A session owner whose id is the empty string passes the binder of
  routes/ownerAuth.js, which sets \<open>req.libraryId\<close> to that empty string.
\<close>

theorem binder_blank_id_counterexample:
  "ownerAuth_ensureOwnerDataIsolation (request_of blank_id_owner_session)
     = Next ((request_of blank_id_owner_session)\<lparr>libraryId := JStr []\<rparr>)
   \<and> \<not> truthy (JStr [])"
  by (simp add: ownerAuth_ensureOwnerDataIsolation_def request_of_def blank_id_owner_session_def
      anonymous_def)

section \<open>Login\<close>

text \<open>
  C7, as the code has it.  A successful owner login stores the new owner in
  \<open>session.owner\<close>, replacing an earlier owner, and leaves \<open>session.user\<close> and
  \<open>session.student\<close> as they were; a successful user login stores the new user in
  \<open>session.user\<close> and leaves \<open>session.owner\<close> and \<open>session.student\<close> as they
  were.  Principals of different kinds can be in the session together after a login.
\<close>

theorem login_writes_own_slot:
  "(owner_login owner_query compare_result phone password s = (s', r) \<and> status r = 200 \<longrightarrow>
      (\<exists>library rows. owner_query = Inr (library # rows)
          \<and> s_owner s' = Some (owner_of_library library))
      \<and> s_user s' = s_user s \<and> s_student s' = s_student s)
   \<and> (user_login user_query uname password s = (s'', r') \<and> status r' = 200 \<longrightarrow>
      (\<exists>row rows. user_query = Inr (row # rows) \<and> s_user s'' = Some (user_of_row row))
      \<and> s_owner s'' = s_owner s \<and> s_student s'' = s_student s)"
proof -
  have own: "(\<exists>library rows. owner_query = Inr (library # rows)
          \<and> s_owner s' = Some (owner_of_library library))
      \<and> s_user s' = s_user s \<and> s_student s' = s_student s"
    if "owner_login owner_query compare_result phone password s = (s', r)" and "status r = 200"
    using owner_login_success [OF that] by auto
  have usr: "(\<exists>row rows. user_query = Inr (row # rows) \<and> s_user s'' = Some (user_of_row row))
      \<and> s_owner s'' = s_owner s \<and> s_student s'' = s_student s"
    if "user_login user_query uname password s = (s'', r')" and "status r' = 200"
    using user_login_success [OF that] by auto
  from own usr show ?thesis by blast
qed

theorem login_writes_own_slot_witness:
  "owner_login (Inr [city_library]) (Inr True) (JStr ''9876543210'') (JStr ''s3cret'') clerk_session
     = (clerk_session\<lparr>s_owner := Some (owner_of_library city_library)\<rparr>,
        reply 200 (OwnerLogin ''Login successful'' (owner_of_library city_library)))
   \<and> status (reply 200 (OwnerLogin ''Login successful'' (owner_of_library city_library))) = 200
   \<and> s_user (clerk_session\<lparr>s_owner := Some (owner_of_library city_library)\<rparr>) = s_user clerk_session
   \<and> user_login (Inr [clerk_row]) (JStr ''ravi'') (JStr ''s3cret'') clerk_session
     = (clerk_session\<lparr>s_user := Some (user_of_row clerk_row)\<rparr>,
        reply 200 (UserLogin ''Login successful'' (user_of_row clerk_row)))
   \<and> status (reply 200 (UserLogin ''Login successful'' (user_of_row clerk_row))) = 200
   \<and> s_owner (clerk_session\<lparr>s_user := Some (user_of_row clerk_row)\<rparr>) = s_owner clerk_session"
proof -
  have own: "owner_login (Inr [city_library]) (Inr True) (JStr ''9876543210'') (JStr ''s3cret'')
      clerk_session
     = (clerk_session\<lparr>s_owner := Some (owner_of_library city_library)\<rparr>,
        reply 200 (OwnerLogin ''Login successful'' (owner_of_library city_library)))"
    by (simp add: owner_login_def city_library_def)
  have usr: "user_login (Inr [clerk_row]) (JStr ''ravi'') (JStr ''s3cret'') clerk_session
     = (clerk_session\<lparr>s_user := Some (user_of_row clerk_row)\<rparr>,
        reply 200 (UserLogin ''Login successful'' (user_of_row clerk_row)))"
    by (simp add: user_login_def clerk_row_def)
  have ok1: "status (reply 200 (OwnerLogin ''Login successful'' (owner_of_library city_library))) = 200"
    by (rule status_reply)
  have ok2: "status (reply 200 (UserLogin ''Login successful'' (user_of_row clerk_row))) = 200"
    by (rule status_reply)
  from own usr ok1 ok2
    login_writes_own_slot [of "Inr [city_library]" "Inr True" "JStr ''9876543210''"
      "JStr ''s3cret''" clerk_session
      "clerk_session\<lparr>s_owner := Some (owner_of_library city_library)\<rparr>"
      "reply 200 (OwnerLogin ''Login successful'' (owner_of_library city_library))"
      "Inr [clerk_row]" "JStr ''ravi''"
      "clerk_session\<lparr>s_user := Some (user_of_row clerk_row)\<rparr>"
      "reply 200 (UserLogin ''Login successful'' (user_of_row clerk_row))"]
  show ?thesis by blast
qed

text \<open>
  An owner logging in on a session that already holds a staff user: afterwards the
  session holds both the owner and the user.
\<close>

theorem login_keeps_other_principal_counterexample:
  "s_owner (fst (owner_login (Inr [city_library]) (Inr True) (JStr ''9876543210'') (JStr ''s3cret'')
       clerk_session)) = Some (owner_of_library city_library)
   \<and> s_user (fst (owner_login (Inr [city_library]) (Inr True) (JStr ''9876543210'') (JStr ''s3cret'')
       clerk_session)) = Some clerk
   \<and> status (snd (owner_login (Inr [city_library]) (Inr True) (JStr ''9876543210'') (JStr ''s3cret'')
       clerk_session)) = 200"
  by (simp add: owner_login_def city_library_def clerk_session_def anonymous_def status_reply)

text \<open>
  C8, as the code has it.  With identifier and secret both given, an unknown identifier
  is answered 401 \<open>Invalid credentials\<close> by both logins, and the session is left
  untouched.  A wrong secret gets the identical answer in the user login (the secret is
  not strictly equal to the stored password) and in the owner login of a library whose
  status is \<open>active\<close> when \<open>bcrypt.compare\<close> returns false.  Two failures of the
  owner login do tell a known phone from an unknown one: a library whose status is not
  \<open>active\<close> is answered 401 \<open>Library account is suspended. Please contact support.\<close>
  before the password is looked at, and when \<open>bcrypt.compare\<close> throws (as it does
  on a secret that is not a string) the handler's \<open>catch\<close> answers 500.
\<close>

theorem invalid_credentials_generic:
  assumes "truthy ident" and "truthy password"
  shows "owner_login (Inr []) compare_result ident password s
           = (s, reply 401 (Message ''Invalid credentials''))
       \<and> (lib_status library = JStr ''active'' \<longrightarrow>
            owner_login (Inr (library # rows)) (Inr False) ident password s
              = (s, reply 401 (Message ''Invalid credentials'')))
       \<and> (lib_status library = JStr ''active'' \<longrightarrow>
            owner_login (Inr (library # rows)) (Inl e) ident password s
              = (s, owner_login_catch e)
            \<and> status (owner_login_catch e) = 500)
       \<and> (lib_status library \<noteq> JStr ''active'' \<longrightarrow>
            owner_login (Inr (library # rows)) compare_result ident password s
              = (s, reply 401 (Message ''Library account is suspended. Please contact support.'')))
       \<and> user_login (Inr []) ident password s = (s, reply 401 (Message ''Invalid credentials''))
       \<and> (password \<noteq> row_password urow \<longrightarrow>
            user_login (Inr (urow # urows)) ident password s
              = (s, reply 401 (Message ''Invalid credentials'')))"
proof -
  have unknown_owner: "owner_login (Inr []) compare_result ident password s
           = (s, reply 401 (Message ''Invalid credentials''))"
    using assms by (simp add: owner_login_def invalid_credentials_def)
  have wrong_owner: "owner_login (Inr (library # rows)) (Inr False) ident password s
              = (s, reply 401 (Message ''Invalid credentials''))"
    if "lib_status library = JStr ''active''"
    using assms that by (simp add: owner_login_def invalid_credentials_def)
  have thrown: "owner_login (Inr (library # rows)) (Inl e) ident password s
              = (s, owner_login_catch e)
            \<and> status (owner_login_catch e) = 500"
    if "lib_status library = JStr ''active''"
    using assms that by (simp add: owner_login_def status_owner_login_catch)
  have suspended: "owner_login (Inr (library # rows)) compare_result ident password s
              = (s, reply 401 (Message ''Library account is suspended. Please contact support.''))"
    if "lib_status library \<noteq> JStr ''active''"
    using assms that by (simp add: owner_login_def)
  have unknown_user: "user_login (Inr []) ident password s
           = (s, reply 401 (Message ''Invalid credentials''))"
    using assms by (simp add: user_login_def invalid_credentials_def)
  have wrong_user: "user_login (Inr (urow # urows)) ident password s
              = (s, reply 401 (Message ''Invalid credentials''))"
    if "password \<noteq> row_password urow"
    using assms that by (simp add: user_login_def invalid_credentials_def)
  from unknown_owner wrong_owner thrown suspended unknown_user wrong_user
  show ?thesis by blast
qed

theorem invalid_credentials_generic_witness:
  "truthy (JStr ''9876543210'') \<and> truthy (JStr ''wrong'')
   \<and> lib_status city_library = JStr ''active''
   \<and> owner_login (Inr [city_library]) (Inr False) (JStr ''9876543210'') (JStr ''wrong'') anonymous
       = (anonymous, reply 401 (Message ''Invalid credentials''))
   \<and> owner_login (Inr []) (Inr False) (JStr ''9876543210'') (JStr ''wrong'') anonymous
       = (anonymous, reply 401 (Message ''Invalid credentials''))
   \<and> status (snd (owner_login (Inr [city_library]) (Inl ''data and hash must be strings'')
        (JStr ''9876543210'') (JStr ''wrong'') anonymous)) = 500
   \<and> JStr ''wrong'' \<noteq> row_password clerk_row
   \<and> user_login (Inr [clerk_row]) (JStr ''9876543210'') (JStr ''wrong'') anonymous
       = (anonymous, reply 401 (Message ''Invalid credentials''))"
proof -
  have given: "truthy (JStr ''9876543210'')" "truthy (JStr ''wrong'')"
    by simp_all
  have active: "lib_status city_library = JStr ''active''"
    by (simp add: city_library_def)
  have differs: "JStr ''wrong'' \<noteq> row_password clerk_row"
    by (simp add: clerk_row_def)
  from given active differs
    invalid_credentials_generic [OF given, where compare_result = "Inr False" and s = anonymous
      and library = city_library and rows = "[]" and e = "''data and hash must be strings''"
      and urow = clerk_row and urows = "[]"]
  show ?thesis by simp
qed

text \<open>
  Against an unknown phone, which gets 401 \<open>Invalid credentials\<close>: a known phone of
  a suspended library with a wrong password gets a 401 with another message, and a
  known phone of an active library with the number 123456 as secret, on which
  \<open>bcrypt.compare\<close> throws, gets 500.
\<close>

theorem suspended_library_counterexample:
  "snd (owner_login (Inr [suspended_library]) (Inr False) (JStr ''9876543210'') (JStr ''wrong'') anonymous)
     = reply 401 (Message ''Library account is suspended. Please contact support.'')
   \<and> snd (owner_login (Inr []) (Inr False) (JStr ''9876543210'') (JStr ''wrong'') anonymous)
     = reply 401 (Message ''Invalid credentials'')
   \<and> reply 401 (Message ''Library account is suspended. Please contact support.'')
     \<noteq> reply 401 (Message ''Invalid credentials'')
   \<and> status (snd (owner_login (Inr [city_library]) (Inl ''data and hash must be strings'')
        (JStr ''9876543210'') (JNum 123456) anonymous)) = 500
   \<and> snd (owner_login (Inr []) (Inl ''data and hash must be strings'')
        (JStr ''9876543210'') (JNum 123456) anonymous)
     = reply 401 (Message ''Invalid credentials'')"
  by (simp add: owner_login_def suspended_library_def city_library_def invalid_credentials_def
      status_owner_login_catch status_reply)
    (simp add: reply_def)

section \<open>Logout\<close>

text \<open>
  C9, as the code has it.  Both logout handlers clear the cookie \<open>connect.sid\<close> only
  when \<open>session.destroy\<close> succeeds, answering 200 \<open>Logout successful\<close>.  When
  destroy reports an error they answer 500 \<open>Could not log out, please try again.\<close>
  and clear no cookie.
\<close>

theorem logout_cookie:
  assumes "req_session req = Some s"
  shows "logout None req
           = Respond \<lparr>status = 200, json = Message ''Logout successful'',
                      clearedCookies = [''connect.sid'']\<rparr>
       \<and> owner_logout None req
           = Respond \<lparr>status = 200, json = Message ''Logout successful'',
                      clearedCookies = [''connect.sid'']\<rparr>
       \<and> logout (Some e) req
           = Respond \<lparr>status = 500, json = Message ''Could not log out, please try again.'',
                      clearedCookies = []\<rparr>
       \<and> owner_logout (Some e) req
           = Respond \<lparr>status = 500, json = Message ''Could not log out, please try again.'',
                      clearedCookies = []\<rparr>"
  using assms by (simp add: logout_def owner_logout_def reply_def)

theorem logout_cookie_witness:
  "req_session (request_of clerk_session) = Some clerk_session
   \<and> logout None (request_of clerk_session)
           = Respond \<lparr>status = 200, json = Message ''Logout successful'',
                      clearedCookies = [''connect.sid'']\<rparr>
   \<and> owner_logout (Some ''store unavailable'') (request_of clerk_session)
           = Respond \<lparr>status = 500, json = Message ''Could not log out, please try again.'',
                      clearedCookies = []\<rparr>"
  using logout_cookie [of "request_of clerk_session" clerk_session "''store unavailable''"]
  by (simp add: request_of_def)

text \<open>
  A failing destroy on an owner's session: the 500 answer of either handler clears no
  cookie.
\<close>

theorem logout_failure_keeps_cookie_counterexample:
  "logout (Some ''store unavailable'') (request_of owner_session)
     = Respond \<lparr>status = 500, json = Message ''Could not log out, please try again.'',
                clearedCookies = []\<rparr>
   \<and> owner_logout (Some ''store unavailable'') (request_of owner_session)
     = Respond \<lparr>status = 500, json = Message ''Could not log out, please try again.'',
                clearedCookies = []\<rparr>"
  by (simp add: logout_def owner_logout_def request_of_def reply_def)

section \<open>The combinator argument\<close>

text \<open>
  C10.  For a user who is not an admin, with no owner in the session,
  \<open>checkPermissions\<close> tests with \<open>every\<close> exactly when the upper-cased combinator
  is \<open>AND\<close> (so for \<open>'AND'\<close> and \<open>'and'\<close>), and with \<open>some\<close> for every other
  string, among them \<open>'ALL'\<close>, \<open>'ANY'\<close> and the default \<open>'OR'\<close>.
\<close>

theorem combinator_AND_only:
  assumes "req_session req = Some s" and "s_owner s = None" and "s_user s = Some u"
    and "user_role u \<noteq> JStr ''admin''"
  shows "(toUpperCase logic = ''AND'' \<longrightarrow>
            (checkPermissions required logic req = Next req
               \<longleftrightarrow> (\<forall>p \<in> set required. p \<in> set (userPermissions u))))
       \<and> (toUpperCase logic \<noteq> ''AND'' \<longrightarrow>
            (checkPermissions required logic req = Next req
               \<longleftrightarrow> (\<exists>p \<in> set required. p \<in> set (userPermissions u))))
       \<and> toUpperCase ''ALL'' \<noteq> ''AND'' \<and> toUpperCase ''ANY'' \<noteq> ''AND''
       \<and> toUpperCase ''OR'' \<noteq> ''AND''
       \<and> toUpperCase ''AND'' = ''AND'' \<and> toUpperCase ''and'' = ''AND''"
  using toUpperCase_others toUpperCase_AND toUpperCase_and
  by (simp add: checkPermissions_non_admin [OF assms])

theorem combinator_AND_only_witness:
  "req_session (request_of clerk_session) = Some clerk_session
   \<and> s_owner clerk_session = None \<and> s_user clerk_session = Some clerk
   \<and> user_role clerk \<noteq> JStr ''admin''
   \<and> toUpperCase ''ALL'' \<noteq> ''AND''
   \<and> checkPermissions [''manage_branches'', ''manage_library_students''] ''ALL''
        (request_of clerk_session) = Next (request_of clerk_session)
   \<and> checkPermissions [''manage_branches'', ''manage_library_students''] ''and''
        (request_of clerk_session) \<noteq> Next (request_of clerk_session)"
  using combinator_AND_only [of "request_of clerk_session" clerk_session clerk "''ALL''"
      "[''manage_branches'', ''manage_library_students'']"]
    combinator_AND_only [of "request_of clerk_session" clerk_session clerk "''and''"
      "[''manage_branches'', ''manage_library_students'']"]
  by (simp add: request_of_def clerk_session_def anonymous_def clerk_def userPermissions_def)

end
